theory Spec2Isabelle
  imports Complex_Main
begin

section \<open>Go strings and the functions of package strings that the service calls\<close>

text \<open>
  A Go string is a sequence of bytes, here a \<open>char list\<close>. The functions below are the ones
  of package \<open>strings\<close> called in \<open>service/utls.go\<close>.
\<close>

definition nl :: char where
  "nl = CHR 0x0A"

definition hasPrefix :: "string \<Rightarrow> string \<Rightarrow> bool" where
  "hasPrefix s p = (take (length p) s = p)"

definition trimPrefix :: "string \<Rightarrow> string \<Rightarrow> string" where
  "trimPrefix s p = (if hasPrefix s p then drop (length p) s else s)"

definition hasSuffix :: "string \<Rightarrow> string \<Rightarrow> bool" where
  "hasSuffix s p = (length p \<le> length s \<and> drop (length s - length p) s = p)"

text \<open>\<open>strings.Split(s, "\n")\<close>: the pieces between the newlines, one more than there are newlines.\<close>

primrec split_from :: "string \<Rightarrow> string \<Rightarrow> string list" where
  "split_from piece [] = [piece]"
| "split_from piece (c # cs) =
     (if c = nl then piece # split_from [] cs else split_from (piece @ [c]) cs)"

definition split_nl :: "string \<Rightarrow> string list" where
  "split_nl s = split_from [] s"

text \<open>
  \<open>unicode.IsSpace\<close>, on the UTF-8 encodings of the runes it accepts: the six ASCII blanks,
  U+0085, U+00A0, U+1680, U+2000 to U+200A, U+2028, U+2029, U+202F, U+205F and U+3000. A byte
  sequence that is not valid UTF-8 decodes to U+FFFD, which is no space.
\<close>

definition space_runes :: "string list" where
  "space_runes =
     [[CHR 0x09], [CHR 0x0A], [CHR 0x0B], [CHR 0x0C], [CHR 0x0D], [CHR 0x20],
      [CHR 0xC2, CHR 0x85], [CHR 0xC2, CHR 0xA0],
      [CHR 0xE1, CHR 0x9A, CHR 0x80],
      [CHR 0xE2, CHR 0x80, CHR 0x80], [CHR 0xE2, CHR 0x80, CHR 0x81],
      [CHR 0xE2, CHR 0x80, CHR 0x82], [CHR 0xE2, CHR 0x80, CHR 0x83],
      [CHR 0xE2, CHR 0x80, CHR 0x84], [CHR 0xE2, CHR 0x80, CHR 0x85],
      [CHR 0xE2, CHR 0x80, CHR 0x86], [CHR 0xE2, CHR 0x80, CHR 0x87],
      [CHR 0xE2, CHR 0x80, CHR 0x88], [CHR 0xE2, CHR 0x80, CHR 0x89],
      [CHR 0xE2, CHR 0x80, CHR 0x8A],
      [CHR 0xE2, CHR 0x80, CHR 0xA8], [CHR 0xE2, CHR 0x80, CHR 0xA9],
      [CHR 0xE2, CHR 0x80, CHR 0xAF], [CHR 0xE2, CHR 0x81, CHR 0x9F],
      [CHR 0xE3, CHR 0x80, CHR 0x80]]"

text \<open>The length of the rune of \<open>rs\<close> that \<open>s\<close> starts with, 0 when it starts with none.\<close>

definition rune_len :: "string list \<Rightarrow> string \<Rightarrow> nat" where
  "rune_len rs s = (case find (hasPrefix s) rs of None \<Rightarrow> 0 | Some r \<Rightarrow> length r)"

function trimLeftRunes :: "string list \<Rightarrow> string \<Rightarrow> string" where
  "trimLeftRunes rs s =
     (if 0 < rune_len rs s then trimLeftRunes rs (drop (rune_len rs s) s) else s)"
  by pat_completeness auto
termination
proof (relation "measure (\<lambda>(rs, s). length s)")
  show "wf (measure (\<lambda>(rs, s). length s))" by simp
next
  fix rs :: "string list" and s :: string
  assume pos: "0 < rune_len rs s"
  have "s \<noteq> []"
  proof
    assume "s = []"
    then have "rune_len rs s = 0"
      by (auto simp: rune_len_def hasPrefix_def split: option.splits dest: find_Some_iff [THEN iffD1])
    with pos show False by simp
  qed
  with pos show "((rs, drop (rune_len rs s) s), (rs, s)) \<in> measure (\<lambda>(rs, s). length s)"
    by simp
qed

declare trimLeftRunes.simps [simp del]

text \<open>
  \<open>strings.TrimSpace\<close>: the leading space runes go, then the trailing ones. A trailing rune is
  recognised on the reversed string by its reversed encoding.
\<close>

definition trimSpace :: "string \<Rightarrow> string" where
  "trimSpace s = rev (trimLeftRunes (map rev space_runes) (rev (trimLeftRunes space_runes s)))"

section \<open>JSON values, as \<open>encoding/json\<close> decodes them into \<open>interface{}\<close>\<close>

text \<open>
  \<open>nil\<close>, \<open>bool\<close>, \<open>float64\<close> (the real number it denotes), \<open>string\<close>, \<open>[]interface{}\<close> and
  \<open>map[string]interface{}\<close>. A map is kept as its bindings in the order they were stored; a later
  binding of a key replaces an earlier one, so a lookup reads the last.
\<close>

datatype json =
    JNull
  | JBool bool
  | JNumber real
  | JString string
  | JArray "json list"
  | JObject "(string \<times> json) list"

text \<open>\<open>m[k]\<close> on a \<open>map[string]interface{}\<close>: \<open>nil\<close> for a key that is not there.\<close>

definition mapIndex :: "(string \<times> json) list \<Rightarrow> string \<Rightarrow> json" where
  "mapIndex m k = (case map_of (rev m) k of None \<Rightarrow> JNull | Some v \<Rightarrow> v)"

section \<open>The types of \<open>service/types.go\<close>\<close>

record OpenAIMessage =
  Role :: string
  Content :: json

record RaycastMessage =
  Author :: string
  Content_Text :: string

record RaycastSSEData =
  Text :: string
  FinishReason :: string

section \<open>\<open>convertMessages\<close>\<close>

text \<open>One round of the loop over the parts of an array content.\<close>

definition add_part :: "string \<Rightarrow> json \<Rightarrow> string" where
  "add_part contentText part =
     (case part of
        JObject partMap \<Rightarrow>
          (if mapIndex partMap ''type'' = JString ''text''
           then (case mapIndex partMap ''text'' of
                   JString textValue \<Rightarrow> contentText @ textValue
                 | _ \<Rightarrow> contentText)
           else contentText)
      | _ \<Rightarrow> contentText)"

definition contentText_of :: "json \<Rightarrow> string" where
  "contentText_of content =
     (case content of
        JString s \<Rightarrow> s
      | JArray parts \<Rightarrow> foldl add_part [] parts
      | _ \<Rightarrow> [])"

definition convertMessage :: "OpenAIMessage \<Rightarrow> RaycastMessage" where
  "convertMessage msg =
     \<lparr> Author = (if Role msg = ''assistant'' then ''assistant'' else ''user''),
       Content_Text = contentText_of (Content msg) \<rparr>"

definition convertMessages :: "OpenAIMessage list \<Rightarrow> RaycastMessage list" where
  "convertMessages openaiMessages = map convertMessage openaiMessages"

section \<open>What the handlers take from outside\<close>

text \<open>
  \<open>json.Unmarshal\<close> belongs to the standard library, so the handlers are parametric in it, one
  field for each target type the service decodes into; \<open>None\<close> is a returned error. The model
  of the library used for concrete inputs is \<open>encoding_json\<close> further down.
\<close>

record json_lib =
  Unmarshal_SSE :: "string \<Rightarrow> RaycastSSEData option"
  Unmarshal_map :: "string \<Rightarrow> (string \<times> json) list option"
  Unmarshal_messages :: "json \<Rightarrow> OpenAIMessage list option"

text \<open>
  \<open>uuid.New().String()\<close> and \<open>time.Now().Unix()\<close>: what the \<open>k\<close>-th call made while one
  response is handled returns (\<open>k\<close> from 0).
\<close>

record runtime =
  uuid_New :: "nat \<Rightarrow> string"
  time_Now :: "nat \<Rightarrow> int"

text \<open>The type assertions \<open>v.(string)\<close>, \<open>v.(map[string]interface{})\<close>, \<open>v.([]interface{})\<close>.\<close>

definition as_string :: "json \<Rightarrow> string option" where
  "as_string v = (case v of JString s \<Rightarrow> Some s | _ \<Rightarrow> None)"

definition as_map :: "json \<Rightarrow> (string \<times> json) list option" where
  "as_map v = (case v of JObject m \<Rightarrow> Some m | _ \<Rightarrow> None)"

definition as_slice :: "json \<Rightarrow> json list option" where
  "as_slice v = (case v of JArray xs \<Rightarrow> Some xs | _ \<Rightarrow> None)"

text \<open>\<open>s, ok := v.(string); ok && s != ""\<close>\<close>

definition nonempty_string :: "json \<Rightarrow> string option" where
  "nonempty_string v = (case as_string v of Some s \<Rightarrow> (if s \<noteq> [] then Some s else None) | None \<Rightarrow> None)"

section \<open>\<open>handleStreamingResponse\<close>\<close>

record ChunkChoice =
  Delta_Index :: int
  Delta_Content :: string
  Delta_FinishReason :: string

record Chunk =
  Chunk_ID :: string
  Chunk_Object :: string
  Chunk_Created :: int
  Chunk_Model :: string
  Chunk_Choices :: "ChunkChoice list"

text \<open>What is written to \<open>c.Writer\<close>, each write followed by \<open>flusher.Flush()\<close>.\<close>

datatype sse_write = WriteChunk Chunk | WriteDone

record stream_state =
  buffer :: string
  calls :: nat
  written :: "sse_write list"

text \<open>
  \<open>reader.ReadString('\n')\<close>, called until it returns an error: the lines of the body, each with
  its newline. What follows the last newline comes back together with \<open>io.EOF\<close>, and the loop
  breaks without looking at it. A read error breaks the loop in the same way, so a body is the
  bytes received before the end or the error.
\<close>

primrec readStrings :: "string \<Rightarrow> string \<Rightarrow> string list" where
  "readStrings line [] = []"
| "readStrings line (c # cs) =
     (if c = nl then (line @ [c]) # readStrings [] cs else readStrings (line @ [c]) cs)"

definition new_chunk :: "runtime \<Rightarrow> nat \<Rightarrow> string \<Rightarrow> RaycastSSEData \<Rightarrow> Chunk" where
  "new_chunk rt k modelId jsonData =
     \<lparr> Chunk_ID = ''chatcmpl-'' @ uuid_New rt k,
       Chunk_Object = ''chat.completion.chunk'',
       Chunk_Created = time_Now rt k,
       Chunk_Model = modelId,
       Chunk_Choices =
         [\<lparr> Delta_Index = 0,
            Delta_Content = Text jsonData,
            Delta_FinishReason = FinishReason jsonData \<rparr>] \<rparr>"

text \<open>The body of the loop over the lines of a complete group.\<close>

definition emit_line :: "json_lib \<Rightarrow> runtime \<Rightarrow> string \<Rightarrow> stream_state \<Rightarrow> string \<Rightarrow> stream_state" where
  "emit_line J rt modelId st l =
     (if trimSpace l = [] then st
      else if hasPrefix l ''data:'' then
        (case Unmarshal_SSE J (trimSpace (trimPrefix l ''data:'')) of
           None \<Rightarrow> st
         | Some jsonData \<Rightarrow>
             st\<lparr> calls := Suc (calls st),
                 written := written st @ [WriteChunk (new_chunk rt (calls st) modelId jsonData)] \<rparr>)
      else st)"

text \<open>The body of the read loop, for one line read.\<close>

definition read_step :: "json_lib \<Rightarrow> runtime \<Rightarrow> string \<Rightarrow> stream_state \<Rightarrow> string \<Rightarrow> stream_state" where
  "read_step J rt modelId st line =
     (let buf = buffer st @ line in
      if hasSuffix buf [nl, nl]
      then foldl (emit_line J rt modelId) (st\<lparr> buffer := [] \<rparr>) (split_nl buf)
      else st\<lparr> buffer := buf \<rparr>)"

definition stream_loop :: "json_lib \<Rightarrow> runtime \<Rightarrow> string \<Rightarrow> string \<Rightarrow> stream_state" where
  "stream_loop J rt modelId body =
     foldl (read_step J rt modelId) \<lparr> buffer = [], calls = 0, written = [] \<rparr> (readStrings [] body)"

text \<open>
  The writer of a gin context has the static type \<open>gin.ResponseWriter\<close>, which includes
  \<open>http.Flusher\<close>, so the assertion at the head of the handler holds; \<open>json.Marshal\<close> of a chunk
  (strings and integers) returns no error. Neither branch is part of the model.
\<close>

definition handleStreamingResponse :: "json_lib \<Rightarrow> runtime \<Rightarrow> string \<Rightarrow> string \<Rightarrow> sse_write list" where
  "handleStreamingResponse J rt modelId body =
     written (stream_loop J rt modelId body) @ [WriteDone]"

text \<open>The chunks among the writes, in the order written.\<close>

primrec chunk_of :: "sse_write \<Rightarrow> Chunk option" where
  "chunk_of (WriteChunk c) = Some c"
| "chunk_of WriteDone = None"

definition chunks_written :: "sse_write list \<Rightarrow> Chunk list" where
  "chunks_written ws = List.map_filter chunk_of ws"

section \<open>\<open>parseSSEResponse\<close>\<close>

text \<open>\<open>dropCR\<close> of package \<open>bufio\<close>: one carriage return at the end of a line goes.\<close>

definition dropCR :: "string \<Rightarrow> string" where
  "dropCR line = (if line \<noteq> [] \<and> last line = CHR 0x0D then butlast line else line)"

text \<open>
  The lines \<open>scanner.Scan()\<close> delivers with the default split function \<open>bufio.ScanLines\<close>
  and the default buffer: the pieces between the newlines, a last piece without newline when it
  is not empty. The buffer grows to \<open>bufio.MaxScanTokenSize\<close> = 65536 bytes; a line whose
  newline is not within that many bytes makes \<open>Scan\<close> return false (\<open>bufio.ErrTooLong\<close>), which
  ends the loop of \<open>parseSSEResponse\<close>.
\<close>

definition MaxScanTokenSize :: nat where
  "MaxScanTokenSize = 65536"

primrec scanLines :: "string \<Rightarrow> string \<Rightarrow> string list" where
  "scanLines line [] =
     (if line = [] then []
      else if length line < MaxScanTokenSize then [dropCR line]
      else [])"
| "scanLines line (c # cs) =
     (if c = nl then
        (if length line < MaxScanTokenSize then dropCR line # scanLines [] cs else [])
      else scanLines (line @ [c]) cs)"

text \<open>The body of the loop, for one line: the text collected so far, and after the line.\<close>

definition parse_line :: "json_lib \<Rightarrow> string \<Rightarrow> string \<Rightarrow> string" where
  "parse_line J fullText line =
     (if line = [] then fullText
      else if hasPrefix line ''data:'' then
        (let data = trimSpace (trimPrefix line ''data:'') in
         if data = ''[DONE]'' then fullText
         else
           (case Unmarshal_SSE J data of
              None \<Rightarrow>
                (case Unmarshal_map J data of
                   None \<Rightarrow> fullText
                 | Some genericData \<Rightarrow>
                     (case nonempty_string (mapIndex genericData ''text'') of
                        Some text \<Rightarrow> fullText @ text
                      | None \<Rightarrow>
                     (case nonempty_string (mapIndex genericData ''content'') of
                        Some content \<Rightarrow> fullText @ content
                      | None \<Rightarrow>
                     (case as_map (mapIndex genericData ''message'') of
                        Some message \<Rightarrow>
                          (case nonempty_string (mapIndex message ''content'') of
                             Some content \<Rightarrow> fullText @ content
                           | None \<Rightarrow> fullText)
                      | None \<Rightarrow> fullText))))
            | Some jsonData \<Rightarrow>
                (if Text jsonData \<noteq> [] then fullText @ Text jsonData else fullText)))
      else fullText)"

text \<open>
  The block after the loop (the regular expression over the whole response) only writes to the
  log; the function returns \<open>fullText\<close> as the loop left it.
\<close>

definition parseSSEResponse :: "json_lib \<Rightarrow> string \<Rightarrow> string" where
  "parseSSEResponse J responseText =
     (if trimSpace responseText = [] then []
      else foldl (parse_line J) [] (scanLines [] responseText))"

section \<open>\<open>extractTextFromJSON\<close>\<close>

text \<open>Pattern 2 of the function: the first of \<open>choices\<close>, its message, then its delta.\<close>

definition choice_content :: "(string \<times> json) list \<Rightarrow> string option" where
  "choice_content jsonData =
     (case as_slice (mapIndex jsonData ''choices'') of
        Some (c0 # cs) \<Rightarrow>
          (case as_map c0 of
             Some choice \<Rightarrow>
               (case (case as_map (mapIndex choice ''message'') of
                        Some message \<Rightarrow> nonempty_string (mapIndex message ''content'')
                      | None \<Rightarrow> None) of
                  Some content \<Rightarrow> Some content
                | None \<Rightarrow>
                    (case as_map (mapIndex choice ''delta'') of
                       Some delta \<Rightarrow> nonempty_string (mapIndex delta ''content'')
                     | None \<Rightarrow> None))
           | None \<Rightarrow> None)
      | _ \<Rightarrow> None)"

definition extractTextFromJSON :: "(string \<times> json) list \<Rightarrow> string" where
  "extractTextFromJSON jsonData =
     (case nonempty_string (mapIndex jsonData ''content'') of
        Some content \<Rightarrow> content
      | None \<Rightarrow>
     (case choice_content jsonData of
        Some content \<Rightarrow> content
      | None \<Rightarrow>
     (case nonempty_string (mapIndex jsonData ''text'') of
        Some text \<Rightarrow> text
      | None \<Rightarrow>
     (case nonempty_string (mapIndex jsonData ''completion'') of
        Some completion \<Rightarrow> completion
      | None \<Rightarrow> []))))"

section \<open>\<open>handleNonStreamingResponse\<close>\<close>

record ErrorResponse =
  Error_Message :: string
  Error_Type :: string
  Error_Details :: string

record ResponseMessage =
  Message_Role :: string
  Message_Content :: string
  Message_Refusal :: "string option"
  Message_Annotations :: "string list"

record ResponseChoice =
  Choice_Index :: int
  Choice_Message :: ResponseMessage
  Choice_Logprobs :: "string option"
  Choice_FinishReason :: string

record TokensDetails =
  CachedTokens :: int
  PromptAudioTokens :: int

record CompletionDetails =
  ReasoningTokens :: int
  CompletionAudioTokens :: int
  AcceptedPredictionTokens :: int
  RejectedPredictionTokens :: int

record ResponseUsage =
  PromptTokens :: int
  CompletionTokens :: int
  TotalTokens :: int
  PromptTokensDetails :: TokensDetails
  CompletionTokensDetails :: CompletionDetails

record OpenAIChatResponse =
  Response_ID :: string
  Response_Object :: string
  Response_Created :: int
  Response_Model :: string
  Response_Choices :: "ResponseChoice list"
  Response_Usage :: ResponseUsage
  ServiceTier :: string
  SystemFingerprint :: string

text \<open>What the handler sends: \<open>c.JSON(status, ErrorResponse{...})\<close> or the response document.\<close>

datatype http_reply =
    ReplyError nat ErrorResponse
  | ReplyDocument OpenAIChatResponse

text \<open>The notice that stands for the answer when no text was found (UTF-8, 105 bytes).\<close>

definition extraction_failed_notice :: string where
  "extraction_failed_notice =
     [CHR 0xE6, CHR 0x8A, CHR 0xB1, CHR 0xE6, CHR 0xAD, CHR 0x89, CHR 0xEF, CHR 0xBC,
      CHR 0x8C, CHR 0xE6, CHR 0x97, CHR 0xA0, CHR 0xE6, CHR 0xB3, CHR 0x95, CHR 0xE6,
      CHR 0x8F, CHR 0x90, CHR 0xE5, CHR 0x8F, CHR 0x96, CHR 0xE5, CHR 0x93, CHR 0x8D,
      CHR 0xE5, CHR 0xBA, CHR 0x94, CHR 0xE5, CHR 0x86, CHR 0x85, CHR 0xE5, CHR 0xAE,
      CHR 0xB9, CHR 0xE3, CHR 0x80, CHR 0x82, CHR 0xE8, CHR 0xAF, CHR 0xB7, CHR 0xE5,
      CHR 0xB0, CHR 0x9D, CHR 0xE8, CHR 0xAF, CHR 0x95, CHR 0xE9, CHR 0x87, CHR 0x8D,
      CHR 0xE6, CHR 0x96, CHR 0xB0, CHR 0xE5, CHR 0x8F, CHR 0x91, CHR 0xE9, CHR 0x80,
      CHR 0x81, CHR 0xE8, CHR 0xAF, CHR 0xB7, CHR 0xE6, CHR 0xB1, CHR 0x82, CHR 0xE6,
      CHR 0x88, CHR 0x96, CHR 0xE8, CHR 0x81, CHR 0x94, CHR 0xE7, CHR 0xB3, CHR 0xBB,
      CHR 0xE7, CHR 0xAE, CHR 0xA1, CHR 0xE7, CHR 0x90, CHR 0x86, CHR 0xE5, CHR 0x91,
      CHR 0x98, CHR 0xE6, CHR 0xA3, CHR 0x80, CHR 0xE6, CHR 0x9F, CHR 0xA5, CHR 0xE6,
      CHR 0x9C, CHR 0x8D, CHR 0xE5, CHR 0x8A, CHR 0xA1, CHR 0xE5, CHR 0x99, CHR 0xA8,
      CHR 0xE6, CHR 0x97, CHR 0xA5, CHR 0xE5, CHR 0xBF, CHR 0x97, CHR 0xE3, CHR 0x80,
      CHR 0x82]"

text \<open>The text of the answer: lines 310 to 334 of \<open>service/utls.go\<close>.\<close>

definition resolve_fullText :: "json_lib \<Rightarrow> string \<Rightarrow> string" where
  "resolve_fullText J responseText =
     (let fullText = parseSSEResponse J responseText in
      if fullText = [] then
        (let fullText1 =
           (case Unmarshal_map J responseText of
              Some directJsonResponse \<Rightarrow>
                (let extractedText = extractTextFromJSON directJsonResponse in
                 if extractedText \<noteq> [] then extractedText else fullText)
            | None \<Rightarrow> fullText)
         in if fullText1 = [] then extraction_failed_notice else fullText1)
      else fullText)"

definition new_response :: "runtime \<Rightarrow> string \<Rightarrow> string \<Rightarrow> OpenAIChatResponse" where
  "new_response rt modelId fullText =
     \<lparr> Response_ID = ''chatcmpl-'' @ uuid_New rt 0,
       Response_Object = ''chat.completion'',
       Response_Created = time_Now rt 0,
       Response_Model = modelId,
       Response_Choices =
         [\<lparr> Choice_Index = 0,
            Choice_Message =
              \<lparr> Message_Role = ''assistant'',
                Message_Content = fullText,
                Message_Refusal = None,
                Message_Annotations = [] \<rparr>,
            Choice_Logprobs = None,
            Choice_FinishReason = ''length'' \<rparr>],
       Response_Usage =
         \<lparr> PromptTokens = 10,
           CompletionTokens = 10,
           TotalTokens = 20,
           PromptTokensDetails = \<lparr> CachedTokens = 0, PromptAudioTokens = 0 \<rparr>,
           CompletionTokensDetails =
             \<lparr> ReasoningTokens = 0, CompletionAudioTokens = 0,
               AcceptedPredictionTokens = 0, RejectedPredictionTokens = 0 \<rparr> \<rparr>,
       ServiceTier = ''default'',
       SystemFingerprint = ''fp_b376dfbbd5'' \<rparr>"

text \<open>
  \<open>io.ReadAll(response.Body)\<close> gives the body (\<open>Inr\<close>) or an error (\<open>Inl\<close>, with its text).
  \<open>json.MarshalIndent\<close> of the response (strings and integers) returns no error, so the second
  error reply of the source is not part of the model.
\<close>

definition handleNonStreamingResponse ::
    "json_lib \<Rightarrow> runtime \<Rightarrow> string \<Rightarrow> string + string \<Rightarrow> http_reply" where
  "handleNonStreamingResponse J rt modelId readAll =
     (case readAll of
        Inl err \<Rightarrow>
          ReplyError 500
            \<lparr> Error_Message = ''Error reading response body'',
              Error_Type = ''server_error'',
              Error_Details = err \<rparr>
      | Inr responseText \<Rightarrow>
          ReplyDocument (new_response rt modelId (resolve_fullText J responseText)))"

section \<open>The request: \<open>OpenAIChatRequest.UnmarshalJSON\<close> and \<open>handleChatCompletions\<close>\<close>

record OpenAIChatRequest =
  Messages :: "OpenAIMessage list"
  Model :: string
  Temperature :: real
  Stream :: bool
  System :: string
  MaxTokens :: int
  TopP :: real
  FrequencyPenalty :: real
  PresencePenalty :: real
  Extra :: "(string \<times> json) list"

record RaycastChatRequest =
  Raycast_AdditionalSystemInstructions :: string
  Raycast_Debug :: bool
  Raycast_Locale :: string
  Raycast_Messages :: "RaycastMessage list"
  Raycast_Model :: string
  Raycast_Provider :: string
  Raycast_Source :: string
  Raycast_SystemInstruction :: string
  Raycast_Temperature :: real
  Raycast_ThreadID :: string
  Raycast_Tools :: "(string \<times> string) list"

definition as_float64 :: "json \<Rightarrow> real option" where
  "as_float64 v = (case v of JNumber x \<Rightarrow> Some x | _ \<Rightarrow> None)"

definition as_bool :: "json \<Rightarrow> bool option" where
  "as_bool v = (case v of JBool b \<Rightarrow> Some b | _ \<Rightarrow> None)"

definition has_key :: "(string \<times> json) list \<Rightarrow> string \<Rightarrow> bool" where
  "has_key m k = (k \<in> set (map fst m))"

definition delete :: "string \<Rightarrow> (string \<times> json) list \<Rightarrow> (string \<times> json) list" where
  "delete k m = filter (\<lambda>kv. fst kv \<noteq> k) m"

definition delete_if :: "bool \<Rightarrow> string \<Rightarrow> (string \<times> json) list \<Rightarrow> (string \<times> json) list" where
  "delete_if ok k m = (if ok then delete k m else m)"

text \<open>
  \<open>int(v)\<close> on a \<open>float64\<close> discards the fraction. For a value outside the range of \<open>int\<close> Go
  leaves the result to the implementation; nothing below depends on it.
\<close>

definition int_of_float64 :: "real \<Rightarrow> int" where
  "int_of_float64 x = (if 0 \<le> x then \<lfloor>x\<rfloor> else \<lceil>x\<rceil>)"

definition or_else :: "'a option \<Rightarrow> 'a \<Rightarrow> 'a" where
  "or_else x d = (case x of Some v \<Rightarrow> v | None \<Rightarrow> d)"

definition UnmarshalJSON :: "json_lib \<Rightarrow> string \<Rightarrow> OpenAIChatRequest option" where
  "UnmarshalJSON J data =
     (case Unmarshal_map J data of
        None \<Rightarrow> None
      | Some rawMap \<Rightarrow>
          (case (if has_key rawMap ''messages''
                 then Unmarshal_messages J (mapIndex rawMap ''messages'')
                 else Some []) of
             None \<Rightarrow> None
           | Some m \<Rightarrow>
               Some
                 \<lparr> Messages = m,
                   Model = or_else (as_string (mapIndex rawMap ''model'')) [],
                   Temperature = or_else (as_float64 (mapIndex rawMap ''temperature'')) 0,
                   Stream = or_else (as_bool (mapIndex rawMap ''stream'')) False,
                   System = or_else (as_string (mapIndex rawMap ''system'')) [],
                   MaxTokens =
                     or_else (map_option int_of_float64 (as_float64 (mapIndex rawMap ''max_tokens''))) 0,
                   TopP = or_else (as_float64 (mapIndex rawMap ''top_p'')) 0,
                   FrequencyPenalty = or_else (as_float64 (mapIndex rawMap ''frequency_penalty'')) 0,
                   PresencePenalty = or_else (as_float64 (mapIndex rawMap ''presence_penalty'')) 0,
                   Extra =
                     (case as_string (mapIndex rawMap ''system'') of
                        Some v \<Rightarrow> [(''system'', JString v)]
                      | None \<Rightarrow> []) @
                     (delete_if (as_float64 (mapIndex rawMap ''presence_penalty'') \<noteq> None) ''presence_penalty''
                     (delete_if (as_float64 (mapIndex rawMap ''frequency_penalty'') \<noteq> None) ''frequency_penalty''
                     (delete_if (as_float64 (mapIndex rawMap ''top_p'') \<noteq> None) ''top_p''
                     (delete_if (as_float64 (mapIndex rawMap ''max_tokens'') \<noteq> None) ''max_tokens''
                     (delete_if (as_string (mapIndex rawMap ''system'') \<noteq> None) ''system''
                     (delete_if (as_bool (mapIndex rawMap ''stream'') \<noteq> None) ''stream''
                     (delete_if (as_float64 (mapIndex rawMap ''temperature'') \<noteq> None) ''temperature''
                     (delete_if (as_string (mapIndex rawMap ''model'') \<noteq> None) ''model''
                     (delete ''messages'' rawMap))))))))) \<rparr>))"

text \<open>
  \<open>handleChatCompletions\<close>, from the binding of the request to the request that is sent to the
  backend. \<open>c.ShouldBindJSON\<close> hands the JSON value of the request body to \<open>UnmarshalJSON\<close>;
  \<open>data\<close> is that value. The constant \<open>DefaultModel\<close> and the function \<open>getProviderInfo\<close> (on
  the models of the cache) are declared outside the two source files and are parameters here,
  as is the thread identifier that \<open>uuid.New()\<close> returns.

  The outcome is the reply with status 400 (its message and type; \<open>Details\<close> is the text of the
  library's error), or the \<open>RaycastChatRequest\<close> that is marshalled and posted, with the
  \<open>max_tokens\<close> added to it when the request has a positive one, and the \<open>stream\<close> flag that
  selects the handler of the response. \<open>json.Marshal\<close> of the request returns no error.
\<close>

record chat_env =
  DefaultModel :: string
  getProviderInfo :: "string \<Rightarrow> string \<times> string"
  threadId :: string

datatype chat_outcome =
    BadRequest string string
  | Forward RaycastChatRequest "int option" bool

definition handleChatCompletions :: "json_lib \<Rightarrow> chat_env \<Rightarrow> string \<Rightarrow> chat_outcome" where
  "handleChatCompletions J env data =
     (case UnmarshalJSON J data of
        None \<Rightarrow> BadRequest ''Invalid request body'' ''invalid_request_error''
      | Some body \<Rightarrow>
          if length (Messages body) = 0
          then BadRequest ''Missing or invalid 'messages' field'' ''invalid_request_error''
          else
            (let model = (if Model body = [] then DefaultModel env else Model body);
                 temperature = (if Temperature body = 0 then 0.5 else Temperature body);
                 stream = Stream body;
                 (provider, modelName) = getProviderInfo env model;
                 systemPrompt =
                   (if has_key (Extra body) ''system''
                    then (case nonempty_string (mapIndex (Extra body) ''system'') of
                            Some sysPrompt \<Rightarrow> sysPrompt
                          | None \<Rightarrow> ''markdown'')
                    else ''markdown'');
                 raycastRequest =
                   \<lparr> Raycast_AdditionalSystemInstructions = [],
                     Raycast_Debug = False,
                     Raycast_Locale = ''en-US'',
                     Raycast_Messages = convertMessages (Messages body),
                     Raycast_Model = modelName,
                     Raycast_Provider = provider,
                     Raycast_Source = ''ai_chat'',
                     Raycast_SystemInstruction = systemPrompt,
                     Raycast_Temperature = temperature,
                     Raycast_ThreadID = threadId env,
                     Raycast_Tools = [] \<rparr>
             in Forward raycastRequest
                  (if 0 < MaxTokens body then Some (MaxTokens body) else None)
                  stream))"

section \<open>A model of \<open>encoding/json\<close>, for concrete inputs\<close>

text \<open>
  \<open>json.Unmarshal\<close> first checks that the whole text is one JSON value, then stores it into the
  target. The text is cut into tokens, and a stack of open arrays and objects turns the tokens
  into a value; both run once over their input. Strings are decoded with their escapes, a
  surrogate that has no partner becoming U+FFFD. The input is taken to be valid UTF-8 (Go would
  replace other bytes inside a string by U+FFFD). A number is the real it denotes;
  towards \<open>float64\<close> a number too large is an error and one too small is 0, the rounding to 53
  bits in between is left out.
\<close>

datatype token =
    TBeginObject | TEndObject | TBeginArray | TEndArray | TColon | TComma
  | TString string
  | TWord string

datatype lex_mode =
    LOut
  | LWord string
  | LStr string "nat option"
  | LEsc string "nat option"
  | LHex string "nat option" "nat list"

definition is_json_space :: "char \<Rightarrow> bool" where
  "is_json_space c = (c = CHR 0x20 \<or> c = CHR 0x09 \<or> c = CHR 0x0D \<or> c = CHR 0x0A)"

definition punct :: "char \<Rightarrow> token option" where
  "punct c =
     (if c = CHR ''{'' then Some TBeginObject
      else if c = CHR ''}'' then Some TEndObject
      else if c = CHR ''['' then Some TBeginArray
      else if c = CHR '']'' then Some TEndArray
      else if c = CHR '':'' then Some TColon
      else if c = CHR '','' then Some TComma
      else None)"

definition simple_escape :: "char \<Rightarrow> char option" where
  "simple_escape c =
     (if c = CHR 0x22 then Some (CHR 0x22)
      else if c = CHR 0x5C then Some (CHR 0x5C)
      else if c = CHR ''/'' then Some (CHR ''/'')
      else if c = CHR ''b'' then Some (CHR 0x08)
      else if c = CHR ''f'' then Some (CHR 0x0C)
      else if c = CHR ''n'' then Some (CHR 0x0A)
      else if c = CHR ''r'' then Some (CHR 0x0D)
      else if c = CHR ''t'' then Some (CHR 0x09)
      else None)"

definition hex_digit :: "char \<Rightarrow> nat option" where
  "hex_digit c =
     (let n = (of_char c :: nat) in
      if 48 \<le> n \<and> n \<le> 57 then Some (n - 48)
      else if 97 \<le> n \<and> n \<le> 102 then Some (n - 87)
      else if 65 \<le> n \<and> n \<le> 70 then Some (n - 55)
      else None)"

definition utf8_encode :: "nat \<Rightarrow> string" where
  "utf8_encode r =
     (if r < 0x80 then [char_of r]
      else if r < 0x800 then [char_of (0xC0 + r div 64), char_of (0x80 + r mod 64)]
      else if r < 0x10000 then
        [char_of (0xE0 + r div 4096), char_of (0x80 + (r div 64) mod 64), char_of (0x80 + r mod 64)]
      else
        [char_of (0xF0 + r div 262144), char_of (0x80 + (r div 4096) mod 64),
         char_of (0x80 + (r div 64) mod 64), char_of (0x80 + r mod 64)])"

definition replacement_char :: string where
  "replacement_char = [CHR 0xEF, CHR 0xBF, CHR 0xBD]"

definition flush_surrogate :: "nat option \<Rightarrow> string \<Rightarrow> string" where
  "flush_surrogate h s = (case h of None \<Rightarrow> s | Some _ \<Rightarrow> s @ replacement_char)"

definition unicode_escape :: "string \<Rightarrow> nat option \<Rightarrow> nat \<Rightarrow> lex_mode" where
  "unicode_escape s h v =
     (if 0xDC00 \<le> v \<and> v < 0xE000 then
        (case h of
           Some hi \<Rightarrow> LStr (s @ utf8_encode (0x10000 + (hi - 0xD800) * 1024 + (v - 0xDC00))) None
         | None \<Rightarrow> LStr (s @ replacement_char) None)
      else if 0xD800 \<le> v \<and> v < 0xDC00 then LStr (flush_surrogate h s) (Some v)
      else LStr (flush_surrogate h s @ utf8_encode v) None)"

definition emit :: "token \<Rightarrow> token list option \<Rightarrow> token list option" where
  "emit t r = map_option ((#) t) r"

fun lex :: "lex_mode \<Rightarrow> string \<Rightarrow> token list option" where
  "lex LOut [] = Some []"
| "lex (LWord w) [] = Some [TWord w]"
| "lex (LStr s h) [] = None"
| "lex (LEsc s h) [] = None"
| "lex (LHex s h ds) [] = None"
| "lex LOut (c # cs) =
     (if is_json_space c then lex LOut cs
      else if c = CHR 0x22 then lex (LStr [] None) cs
      else (case punct c of
              Some t \<Rightarrow> emit t (lex LOut cs)
            | None \<Rightarrow> lex (LWord [c]) cs))"
| "lex (LWord w) (c # cs) =
     (if is_json_space c then emit (TWord w) (lex LOut cs)
      else if c = CHR 0x22 then emit (TWord w) (lex (LStr [] None) cs)
      else (case punct c of
              Some t \<Rightarrow> emit (TWord w) (emit t (lex LOut cs))
            | None \<Rightarrow> lex (LWord (w @ [c])) cs))"
| "lex (LStr s h) (c # cs) =
     (if c = CHR 0x22 then emit (TString (flush_surrogate h s)) (lex LOut cs)
      else if c = CHR 0x5C then lex (LEsc s h) cs
      else if (of_char c :: nat) < 0x20 then None
      else lex (LStr (flush_surrogate h s @ [c]) None) cs)"
| "lex (LEsc s h) (c # cs) =
     (if c = CHR ''u'' then lex (LHex s h []) cs
      else (case simple_escape c of
              None \<Rightarrow> None
            | Some b \<Rightarrow> lex (LStr (flush_surrogate h s @ [b]) None) cs))"
| "lex (LHex s h ds) (c # cs) =
     (case hex_digit c of
        None \<Rightarrow> None
      | Some d \<Rightarrow>
          (if length ds < 3 then lex (LHex s h (ds @ [d])) cs
           else lex (unicode_escape s h (foldl (\<lambda>n x. 16 * n + x) 0 (ds @ [d]))) cs))"

definition digit_of :: "char \<Rightarrow> nat option" where
  "digit_of c =
     (let n = (of_char c :: nat) in if 48 \<le> n \<and> n \<le> 57 then Some (n - 48) else None)"

datatype num_mode =
    NBegin | NNeg | NZero | NInt | NDot | NFrac | NE | NESign | NExp

record num_acc =
  negative :: bool
  mantissa :: nat
  decimals :: nat
  exp_negative :: bool
  exponent :: nat

definition num_value :: "num_acc \<Rightarrow> real" where
  "num_value a =
     (let m = real (mantissa a) / 10 ^ decimals a;
          x = (if exp_negative a then m / 10 ^ exponent a else m * 10 ^ exponent a)
      in if negative a then - x else x)"

definition is_e :: "char \<Rightarrow> bool" where
  "is_e c = (c = CHR ''e'' \<or> c = CHR ''E'')"

fun scan_number :: "num_mode \<Rightarrow> num_acc \<Rightarrow> string \<Rightarrow> real option" where
  "scan_number m a [] =
     (if m = NZero \<or> m = NInt \<or> m = NFrac \<or> m = NExp then Some (num_value a) else None)"
| "scan_number NBegin a (c # cs) =
     (if c = CHR ''-'' then scan_number NNeg (a\<lparr>negative := True\<rparr>) cs
      else (case digit_of c of
              None \<Rightarrow> None
            | Some d \<Rightarrow>
                if d = 0 then scan_number NZero a cs
                else scan_number NInt (a\<lparr>mantissa := d\<rparr>) cs))"
| "scan_number NNeg a (c # cs) =
     (case digit_of c of
        None \<Rightarrow> None
      | Some d \<Rightarrow>
          if d = 0 then scan_number NZero a cs
          else scan_number NInt (a\<lparr>mantissa := d\<rparr>) cs)"
| "scan_number NZero a (c # cs) =
     (if c = CHR ''.'' then scan_number NDot a cs
      else if is_e c then scan_number NE a cs
      else None)"
| "scan_number NInt a (c # cs) =
     (if c = CHR ''.'' then scan_number NDot a cs
      else if is_e c then scan_number NE a cs
      else (case digit_of c of
              None \<Rightarrow> None
            | Some d \<Rightarrow> scan_number NInt (a\<lparr>mantissa := 10 * mantissa a + d\<rparr>) cs))"
| "scan_number NDot a (c # cs) =
     (case digit_of c of
        None \<Rightarrow> None
      | Some d \<Rightarrow>
          scan_number NFrac (a\<lparr>mantissa := 10 * mantissa a + d, decimals := Suc (decimals a)\<rparr>) cs)"
| "scan_number NFrac a (c # cs) =
     (if is_e c then scan_number NE a cs
      else (case digit_of c of
              None \<Rightarrow> None
            | Some d \<Rightarrow>
                scan_number NFrac
                  (a\<lparr>mantissa := 10 * mantissa a + d, decimals := Suc (decimals a)\<rparr>) cs))"
| "scan_number NE a (c # cs) =
     (if c = CHR ''+'' then scan_number NESign a cs
      else if c = CHR ''-'' then scan_number NESign (a\<lparr>exp_negative := True\<rparr>) cs
      else (case digit_of c of
              None \<Rightarrow> None
            | Some d \<Rightarrow> scan_number NExp (a\<lparr>exponent := d\<rparr>) cs))"
| "scan_number NESign a (c # cs) =
     (case digit_of c of
        None \<Rightarrow> None
      | Some d \<Rightarrow> scan_number NExp (a\<lparr>exponent := d\<rparr>) cs)"
| "scan_number NExp a (c # cs) =
     (case digit_of c of
        None \<Rightarrow> None
      | Some d \<Rightarrow> scan_number NExp (a\<lparr>exponent := 10 * exponent a + d\<rparr>) cs)"

definition number_value :: "string \<Rightarrow> real option" where
  "number_value w =
     scan_number NBegin
       \<lparr>negative = False, mantissa = 0, decimals = 0, exp_negative = False, exponent = 0\<rparr> w"

definition float64_of :: "real \<Rightarrow> real option" where
  "float64_of x =
     (if 2 ^ 1024 - 2 ^ 970 \<le> \<bar>x\<bar> then None
      else if \<bar>x\<bar> \<le> 1 / 2 ^ 1075 then Some 0
      else Some x)"

definition word_value :: "(real \<Rightarrow> real option) \<Rightarrow> string \<Rightarrow> json option" where
  "word_value conv w =
     (if w = ''true'' then Some (JBool True)
      else if w = ''false'' then Some (JBool False)
      else if w = ''null'' then Some JNull
      else (case number_value w of
              None \<Rightarrow> None
            | Some x \<Rightarrow> map_option JNumber (conv x)))"

datatype frame =
    FArray "json list"
  | FObject "(string \<times> json) list"
  | FField "(string \<times> json) list" string

datatype parse_mode = PValue | PFirstElem | PFirstKey | PKey | PColon | PNext | PEnd json

definition maxNestingDepth :: nat where
  "maxNestingDepth = 10000"

fun deliver :: "json \<Rightarrow> frame list \<Rightarrow> (parse_mode \<times> frame list) option" where
  "deliver v [] = Some (PEnd v, [])"
| "deliver v (FArray xs # st) = Some (PNext, FArray (xs @ [v]) # st)"
| "deliver v (FField kvs k # st) = Some (PNext, FObject (kvs @ [(k, v)]) # st)"
| "deliver v (FObject kvs # st) = None"

definition push :: "parse_mode \<Rightarrow> frame \<Rightarrow> frame list \<Rightarrow> (parse_mode \<times> frame list) option" where
  "push m f st = (if length st < maxNestingDepth then Some (m, f # st) else None)"

fun begin_value :: "(real \<Rightarrow> real option) \<Rightarrow> token \<Rightarrow> frame list \<Rightarrow> (parse_mode \<times> frame list) option" where
  "begin_value conv (TString s) st = deliver (JString s) st"
| "begin_value conv (TWord w) st =
     (case word_value conv w of None \<Rightarrow> None | Some v \<Rightarrow> deliver v st)"
| "begin_value conv TBeginArray st = push PFirstElem (FArray []) st"
| "begin_value conv TBeginObject st = push PFirstKey (FObject []) st"
| "begin_value conv t st = None"

definition close_array :: "frame list \<Rightarrow> (parse_mode \<times> frame list) option" where
  "close_array st = (case st of FArray xs # st' \<Rightarrow> deliver (JArray xs) st' | _ \<Rightarrow> None)"

definition close_object :: "frame list \<Rightarrow> (parse_mode \<times> frame list) option" where
  "close_object st = (case st of FObject kvs # st' \<Rightarrow> deliver (JObject kvs) st' | _ \<Rightarrow> None)"

definition begin_field :: "string \<Rightarrow> frame list \<Rightarrow> (parse_mode \<times> frame list) option" where
  "begin_field k st =
     (case st of FObject kvs # st' \<Rightarrow> Some (PColon, FField kvs k # st') | _ \<Rightarrow> None)"

definition after_comma :: "frame list \<Rightarrow> (parse_mode \<times> frame list) option" where
  "after_comma st =
     (case st of
        FArray xs # st' \<Rightarrow> Some (PValue, st)
      | FObject kvs # st' \<Rightarrow> Some (PKey, st)
      | _ \<Rightarrow> None)"

definition parse_step ::
    "(real \<Rightarrow> real option) \<Rightarrow> token \<Rightarrow> parse_mode \<Rightarrow> frame list \<Rightarrow> (parse_mode \<times> frame list) option" where
  "parse_step conv t m st =
     (case m of
        PValue \<Rightarrow> begin_value conv t st
      | PFirstElem \<Rightarrow> (if t = TEndArray then close_array st else begin_value conv t st)
      | PFirstKey \<Rightarrow>
          (case t of TEndObject \<Rightarrow> close_object st | TString k \<Rightarrow> begin_field k st | _ \<Rightarrow> None)
      | PKey \<Rightarrow> (case t of TString k \<Rightarrow> begin_field k st | _ \<Rightarrow> None)
      | PColon \<Rightarrow> (if t = TColon then Some (PValue, st) else None)
      | PNext \<Rightarrow>
          (case t of
             TComma \<Rightarrow> after_comma st
           | TEndArray \<Rightarrow> close_array st
           | TEndObject \<Rightarrow> close_object st
           | _ \<Rightarrow> None)
      | PEnd v \<Rightarrow> None)"

fun parse_tokens :: "(real \<Rightarrow> real option) \<Rightarrow> token list \<Rightarrow> parse_mode \<Rightarrow> frame list \<Rightarrow> json option" where
  "parse_tokens conv [] m st = (case m of PEnd v \<Rightarrow> Some v | _ \<Rightarrow> None)"
| "parse_tokens conv (t # ts) m st =
     (case parse_step conv t m st of
        None \<Rightarrow> None
      | Some (m', st') \<Rightarrow> parse_tokens conv ts m' st')"

definition parse_json :: "(real \<Rightarrow> real option) \<Rightarrow> string \<Rightarrow> json option" where
  "parse_json conv s =
     (case lex LOut s of None \<Rightarrow> None | Some ts \<Rightarrow> parse_tokens conv ts PValue [])"

text \<open>
  Storing into a struct: a member is matched to the field whose name equals the key up to case
  (with U+017F for \<open>s\<close> and U+212A for \<open>k\<close>), members are stored in the order of the text, other
  keys are skipped, \<open>null\<close> leaves a field as it is, and a value that is no string is an error for
  a string field. \<open>null\<close> at the top stores nothing; any other value that is no object is an
  error.
\<close>

definition to_lower :: "char \<Rightarrow> char" where
  "to_lower c =
     (let n = (of_char c :: nat) in if 65 \<le> n \<and> n \<le> 90 then char_of (n + 32) else c)"

fun fold_key :: "string \<Rightarrow> string" where
  "fold_key [] = []"
| "fold_key (c # cs) =
     (if c = CHR 0xC5 \<and> hasPrefix cs [CHR 0xBF] then CHR ''s'' # fold_key (drop 1 cs)
      else if c = CHR 0xE2 \<and> hasPrefix cs [CHR 0x84, CHR 0xAA] then CHR ''k'' # fold_key (drop 2 cs)
      else to_lower c # fold_key cs)"

definition string_field :: "json \<Rightarrow> string \<Rightarrow> string option" where
  "string_field v old =
     (case v of JString s \<Rightarrow> Some s | JNull \<Rightarrow> Some old | _ \<Rightarrow> None)"

record sse_decoding =
  sse_value :: RaycastSSEData
  sse_error :: bool

definition sse_member :: "sse_decoding \<Rightarrow> string \<times> json \<Rightarrow> sse_decoding" where
  "sse_member d kv =
     (let f = fold_key (fst kv) in
      if f = ''text'' then
        (case string_field (snd kv) (Text (sse_value d)) of
           Some s \<Rightarrow> d\<lparr>sse_value := (sse_value d)\<lparr>Text := s\<rparr>\<rparr>
         | None \<Rightarrow> d\<lparr>sse_error := True\<rparr>)
      else if f = ''finish_reason'' then
        (case string_field (snd kv) (FinishReason (sse_value d)) of
           Some s \<Rightarrow> d\<lparr>sse_value := (sse_value d)\<lparr>FinishReason := s\<rparr>\<rparr>
         | None \<Rightarrow> d\<lparr>sse_error := True\<rparr>)
      else d)"

definition decode_SSE :: "json \<Rightarrow> RaycastSSEData option" where
  "decode_SSE v =
     (case v of
        JNull \<Rightarrow> Some \<lparr>Text = [], FinishReason = []\<rparr>
      | JObject kvs \<Rightarrow>
          (let d = foldl sse_member \<lparr>sse_value = \<lparr>Text = [], FinishReason = []\<rparr>, sse_error = False\<rparr> kvs
           in if sse_error d then None else Some (sse_value d))
      | _ \<Rightarrow> None)"

definition decode_map :: "json \<Rightarrow> (string \<times> json) list option" where
  "decode_map v = (case v of JNull \<Rightarrow> Some [] | JObject kvs \<Rightarrow> Some kvs | _ \<Rightarrow> None)"

text \<open>
  \<open>json.Marshal\<close> of the value under \<open>"messages"\<close> followed by \<open>json.Unmarshal\<close> into
  \<open>[]OpenAIMessage\<close>: \<open>Marshal\<close> writes the keys of a map in byte order, so that is the order
  in which the members of a message are stored.
\<close>

fun bytes_less :: "string \<Rightarrow> string \<Rightarrow> bool" where
  "bytes_less [] [] = False"
| "bytes_less [] (y # ys) = True"
| "bytes_less (x # xs) [] = False"
| "bytes_less (x # xs) (y # ys) =
     ((of_char x :: nat) < of_char y \<or> (x = y \<and> bytes_less xs ys))"

primrec insert_key :: "string \<Rightarrow> string list \<Rightarrow> string list" where
  "insert_key k [] = [k]"
| "insert_key k (x # xs) = (if bytes_less x k then x # insert_key k xs else k # x # xs)"

definition sorted_keys :: "(string \<times> json) list \<Rightarrow> string list" where
  "sorted_keys m = foldr insert_key (remdups (map fst m)) []"

record message_decoding =
  message_value :: OpenAIMessage
  message_error :: bool

definition message_member :: "(string \<times> json) list \<Rightarrow> message_decoding \<Rightarrow> string \<Rightarrow> message_decoding" where
  "message_member m d k =
     (let f = fold_key k in
      if f = ''role'' then
        (case string_field (mapIndex m k) (Role (message_value d)) of
           Some s \<Rightarrow> d\<lparr>message_value := (message_value d)\<lparr>Role := s\<rparr>\<rparr>
         | None \<Rightarrow> d\<lparr>message_error := True\<rparr>)
      else if f = ''content'' then d\<lparr>message_value := (message_value d)\<lparr>Content := mapIndex m k\<rparr>\<rparr>
      else d)"

definition decode_message :: "json \<Rightarrow> OpenAIMessage option" where
  "decode_message v =
     (case v of
        JNull \<Rightarrow> Some \<lparr>Role = [], Content = JNull\<rparr>
      | JObject m \<Rightarrow>
          (let d = foldl (message_member m)
                     \<lparr>message_value = \<lparr>Role = [], Content = JNull\<rparr>, message_error = False\<rparr>
                     (sorted_keys m)
           in if message_error d then None else Some (message_value d))
      | _ \<Rightarrow> None)"

primrec decode_all :: "json list \<Rightarrow> OpenAIMessage list option" where
  "decode_all [] = Some []"
| "decode_all (v # vs) =
     (case decode_message v of
        None \<Rightarrow> None
      | Some m \<Rightarrow> map_option ((#) m) (decode_all vs))"

definition decode_messages :: "json \<Rightarrow> OpenAIMessage list option" where
  "decode_messages v =
     (case v of JNull \<Rightarrow> Some [] | JArray vs \<Rightarrow> decode_all vs | _ \<Rightarrow> None)"

definition encoding_json :: json_lib where
  "encoding_json =
     \<lparr> Unmarshal_SSE = (\<lambda>data. case parse_json Some data of None \<Rightarrow> None | Some v \<Rightarrow> decode_SSE v),
       Unmarshal_map = (\<lambda>data. case parse_json float64_of data of None \<Rightarrow> None | Some v \<Rightarrow> decode_map v),
       Unmarshal_messages = decode_messages \<rparr>"

section \<open>The content of a turn and the search order, in the words of the specification\<close>

text \<open>
  The type of a part and its text, read off a part that is an object; the content of a turn as
  the specification resolves it, to be compared with \<open>contentText_of\<close>.
\<close>

definition part_type :: "json \<Rightarrow> json" where
  "part_type p = (case p of JObject m \<Rightarrow> mapIndex m ''type'' | _ \<Rightarrow> JNull)"

definition part_text :: "json \<Rightarrow> string" where
  "part_text p =
     (case p of
        JObject m \<Rightarrow> (case mapIndex m ''text'' of JString s \<Rightarrow> s | _ \<Rightarrow> [])
      | _ \<Rightarrow> [])"

definition resolved_content :: "json \<Rightarrow> string" where
  "resolved_content content =
     (case content of
        JString s \<Rightarrow> s
      | JArray parts \<Rightarrow> concat (map part_text (filter (\<lambda>p. part_type p = JString ''text'') parts))
      | _ \<Rightarrow> [])"

text \<open>
  The fields the whole-body fallback looks at, in the order of the specification, and the first
  of them that is a string and not empty.
\<close>

definition member :: "json \<Rightarrow> string \<Rightarrow> json" where
  "member v k = (case v of JObject m \<Rightarrow> mapIndex m k | _ \<Rightarrow> JNull)"

definition first_choice :: "(string \<times> json) list \<Rightarrow> json" where
  "first_choice m = (case mapIndex m ''choices'' of JArray (c # cs) \<Rightarrow> c | _ \<Rightarrow> JNull)"

definition search_order :: "(string \<times> json) list \<Rightarrow> json list" where
  "search_order m =
     [mapIndex m ''content'',
      member (member (first_choice m) ''message'') ''content'',
      member (member (first_choice m) ''delta'') ''content'',
      mapIndex m ''text'',
      mapIndex m ''completion'']"

definition first_nonempty :: "json list \<Rightarrow> string" where
  "first_nonempty vs = (case List.map_filter nonempty_string vs of [] \<Rightarrow> [] | s # ss \<Rightarrow> s)"

section \<open>Concrete inputs\<close>

text \<open>A runtime, a backend body of two events, three turns and two requests, for running the handlers.\<close>

definition demo_runtime :: runtime where
  "demo_runtime =
     \<lparr> uuid_New = (\<lambda>k. if k = 0 then ''00000000-0000-4000-8000-000000000000''
                         else ''11111111-1111-4111-8111-111111111111''),
       time_Now = (\<lambda>k. 1744200000 + int k) \<rparr>"

definition demo_body :: string where
  \<open>demo_body =
     ''data: {"text":"Hello"}'' @ [nl, nl] @
     ''data: {"text":" there","finish_reason":"stop"}'' @ [nl, nl]\<close>

definition demo_turns :: "OpenAIMessage list" where
  "demo_turns =
     [\<lparr>Role = ''system'', Content = JString ''be brief''\<rparr>,
      \<lparr>Role = ''assistant'',
        Content = JArray
          [JObject [(''type'', JString ''text''), (''text'', JString ''Hel'')],
           JObject [(''type'', JString ''image_url''), (''text'', JString ''no'')],
           JString ''stray'',
           JObject [(''type'', JString ''text''), (''text'', JString ''lo'')]]\<rparr>,
      \<lparr>Role = ''user'', Content = JNumber 3\<rparr>]"

definition demo_env :: chat_env where
  "demo_env =
     \<lparr> DefaultModel = ''default-model'',
       getProviderInfo = (\<lambda>model. (''provider'', model)),
       threadId = ''22222222-2222-4222-8222-222222222222'' \<rparr>"

definition demo_request :: string where
  \<open>demo_request = ''{"messages":[{"role":"user","content":"hi"}],"model":"x","temperature":0}''\<close>

definition demo_request_plain :: string where
  \<open>demo_request_plain = ''{"messages":[{"role":"user","content":"hi"}],"model":"x","stream":false}''\<close>

definition demo_forwarded :: RaycastChatRequest where
  "demo_forwarded =
     \<lparr> Raycast_AdditionalSystemInstructions = [], Raycast_Debug = False,
       Raycast_Locale = ''en-US'',
       Raycast_Messages = [\<lparr>Author = ''user'', Content_Text = ''hi''\<rparr>],
       Raycast_Model = ''x'', Raycast_Provider = ''provider'', Raycast_Source = ''ai_chat'',
       Raycast_SystemInstruction = ''markdown'', Raycast_Temperature = 0.5,
       Raycast_ThreadID = ''22222222-2222-4222-8222-222222222222'', Raycast_Tools = [] \<rparr>"

section \<open>An invariant of the streaming loop\<close>

text \<open>The identifiers of the chunks written so far are the UUIDs drawn so far, in order.\<close>

definition ids_from_runtime :: "runtime \<Rightarrow> stream_state \<Rightarrow> bool" where
  "ids_from_runtime rt st =
     (map Chunk_ID (chunks_written (written st)) =
        map (\<lambda>k. ''chatcmpl-'' @ uuid_New rt k) [0..<calls st])"

section \<open>Rules for running the definitions on concrete inputs\<close>

lemmas strings_eval =
  nl_def hasPrefix_def trimPrefix_def hasSuffix_def trimSpace_def trimLeftRunes.simps
  rune_len_def space_runes_def dropCR_def MaxScanTokenSize_def split_nl_def

lemmas json_eval =
  encoding_json_def parse_json_def is_json_space_def punct_def emit_def flush_surrogate_def
  simple_escape_def hex_digit_def unicode_escape_def utf8_encode_def replacement_char_def
  word_value_def number_value_def num_value_def is_e_def digit_of_def float64_of_def
  push_def maxNestingDepth_def parse_step_def close_array_def close_object_def begin_field_def
  after_comma_def decode_SSE_def sse_member_def string_field_def to_lower_def decode_map_def
  sorted_keys_def message_member_def decode_message_def decode_messages_def mapIndex_def

lemmas handler_eval =
  as_string_def as_map_def as_slice_def as_float64_def as_bool_def nonempty_string_def
  new_chunk_def emit_line_def read_step_def stream_loop_def handleStreamingResponse_def
  chunks_written_def List.map_filter_simps
  parse_line_def parseSSEResponse_def choice_content_def extractTextFromJSON_def
  resolve_fullText_def new_response_def handleNonStreamingResponse_def
  has_key_def delete_def delete_if_def int_of_float64_def or_else_def UnmarshalJSON_def
  handleChatCompletions_def convertMessages_def convertMessage_def contentText_of_def add_part_def

section \<open>Lemmas\<close>

subsection \<open>Message contents and the search order\<close>

lemma add_part_append: "add_part acc p = acc @ add_part [] p"
  by (simp add: add_part_def split: json.splits)

lemma foldl_add_part: "foldl add_part acc ps = acc @ foldl add_part [] ps"
proof (induction ps arbitrary: acc)
  case Nil
  show ?case by simp
next
  case (Cons p ps)
  have "foldl add_part acc (p # ps) = foldl add_part (add_part acc p) ps" by simp
  also have "\<dots> = add_part acc p @ foldl add_part [] ps" by (rule Cons.IH)
  also have "\<dots> = acc @ (add_part [] p @ foldl add_part [] ps)"
    using add_part_append [of acc p] by simp
  also have "add_part [] p @ foldl add_part [] ps = foldl add_part (add_part [] p) ps"
    by (rule Cons.IH [symmetric])
  finally show ?case by simp
qed

lemma add_part_spec:
  "add_part [] p = (if part_type p = JString ''text'' then part_text p else [])"
  by (simp add: add_part_def part_type_def part_text_def split: json.splits)

lemma foldl_add_part_spec:
  "foldl add_part [] ps = concat (map part_text (filter (\<lambda>p. part_type p = JString ''text'') ps))"
proof (induction ps)
  case Nil
  show ?case by simp
next
  case (Cons p ps)
  have "foldl add_part [] (p # ps) = foldl add_part (add_part [] p) ps" by simp
  also have "\<dots> = add_part [] p @ foldl add_part [] ps" by (rule foldl_add_part)
  finally show ?case using Cons.IH by (simp add: add_part_spec)
qed

lemma nonempty_string_JNull [simp]: "nonempty_string JNull = None"
  by (simp add: nonempty_string_def as_string_def)

lemma member_JNull [simp]: "member JNull k = JNull"
  by (simp add: member_def)

lemma member_JObject: "member (JObject m) k = mapIndex m k"
  by (simp add: member_def)

lemma as_map_JObject: "as_map (JObject m) = Some m"
  by (simp add: as_map_def)

lemma choice_content_spec:
  "choice_content m =
     (case nonempty_string (member (member (first_choice m) ''message'') ''content'') of
        Some s \<Rightarrow> Some s
      | None \<Rightarrow> nonempty_string (member (member (first_choice m) ''delta'') ''content''))"
proof (cases "mapIndex m ''choices''")
  case (JArray cs)
  show ?thesis
  proof (cases cs)
    case Nil
    with JArray show ?thesis
      by (simp add: choice_content_def first_choice_def as_slice_def)
  next
    case (Cons c0 cs')
    show ?thesis
    proof (cases c0)
      case (JObject choice)
      have msg: "(case as_map (mapIndex choice ''message'') of
                    Some message \<Rightarrow> nonempty_string (mapIndex message ''content'')
                  | None \<Rightarrow> None) = nonempty_string (member (mapIndex choice ''message'') ''content'')"
        by (cases "mapIndex choice ''message''") (simp_all add: as_map_def member_def nonempty_string_def as_string_def)
      have dlt: "(case as_map (mapIndex choice ''delta'') of
                    Some delta \<Rightarrow> nonempty_string (mapIndex delta ''content'')
                  | None \<Rightarrow> None) = nonempty_string (member (mapIndex choice ''delta'') ''content'')"
        by (cases "mapIndex choice ''delta''") (simp_all add: as_map_def member_def nonempty_string_def as_string_def)
      have fc: "first_choice m = JObject choice"
        using JArray Cons JObject by (simp add: first_choice_def)
      have "choice_content m =
              (case nonempty_string (member (mapIndex choice ''message'') ''content'') of
                 Some content \<Rightarrow> Some content
               | None \<Rightarrow> nonempty_string (member (mapIndex choice ''delta'') ''content''))"
        using JArray Cons JObject
        by (simp add: choice_content_def as_slice_def as_map_JObject msg dlt cong: option.case_cong)
      then show ?thesis by (simp add: fc member_JObject cong: option.case_cong)
    qed (use JArray Cons in
          \<open>simp_all add: choice_content_def first_choice_def as_slice_def as_map_def member_def
             cong: option.case_cong\<close>)
  qed
qed (simp_all add: choice_content_def first_choice_def as_slice_def)

lemma first_nonempty_Nil: "first_nonempty [] = []"
  by (simp add: first_nonempty_def List.map_filter_simps)

lemma first_nonempty_Cons:
  "first_nonempty (v # vs) = (case nonempty_string v of Some s \<Rightarrow> s | None \<Rightarrow> first_nonempty vs)"
  by (simp add: first_nonempty_def List.map_filter_simps split: option.splits)

subsection \<open>Strings\<close>


lemma readStrings_append:
  "readStrings line (pre @ nl # g) = readStrings line (pre @ [nl]) @ readStrings [] g"
  by (induction pre arbitrary: line) auto

lemma readStrings_shape:
  "nl \<notin> set line \<Longrightarrow> l \<in> set (readStrings line s) \<Longrightarrow> \<exists>l'. l = l' @ [nl] \<and> nl \<notin> set l'"
proof (induction s arbitrary: line)
  case Nil
  then show ?case by simp
next
  case (Cons c s)
  show ?case
  proof (cases "c = nl")
    case True
    with Cons.prems have "l = line @ [nl] \<or> l \<in> set (readStrings [] s)" by simp
    then show ?thesis
    proof
      assume "l = line @ [nl]"
      with Cons.prems(1) show ?thesis by blast
    next
      assume "l \<in> set (readStrings [] s)"
      with Cons.IH [of "[]"] show ?thesis by simp
    qed
  next
    case False
    with Cons.prems have "l \<in> set (readStrings (line @ [c]) s)" and "nl \<notin> set (line @ [c])"
      by auto
    with Cons.IH [of "line @ [c]"] show ?thesis by blast
  qed
qed

lemma split_from_plain: "nl \<notin> set l \<Longrightarrow> split_from piece l = [piece @ l]"
  by (induction l arbitrary: piece) auto



lemma no_blank_no_suffix:
  assumes "nl \<notin> set l'" and "l' \<noteq> []"
  shows "\<not> hasSuffix (b @ l' @ [nl]) [nl, nl]"
proof
  assume h: "hasSuffix (b @ l' @ [nl]) [nl, nl]"
  from assms(2) obtain x a where l': "l' = x @ [a]"
    by (metis append_butlast_last_id)
  have "b @ l' @ [nl] = (b @ x) @ [a, nl]" by (simp add: l')
  with h have "drop (length ((b @ x) @ [a, nl]) - 2) ((b @ x) @ [a, nl]) = [nl, nl]"
    by (simp add: hasSuffix_def)
  then have "[a, nl] = [nl, nl]" by simp
  then have "a = nl" by simp
  with assms(1) l' show False by simp
qed




lemma trimSpace_Nil: "trimSpace [] = []"
  by (simp add: trimSpace_def trimLeftRunes.simps rune_len_def space_runes_def hasPrefix_def)

subsection \<open>The streaming loop\<close>

lemma chunks_written_chunk: "chunks_written (ws @ [WriteChunk c]) = chunks_written ws @ [c]"
  by (simp add: chunks_written_def List.map_filter_def)

lemma chunks_written_done: "chunks_written (ws @ [WriteDone]) = chunks_written ws"
  by (simp add: chunks_written_def List.map_filter_def)

lemma chunks_written_Nil: "chunks_written [] = []"
  by (simp add: chunks_written_def List.map_filter_def)



lemma read_step_keep:
  assumes "nl \<notin> set l'" and "l' \<noteq> []"
  shows "read_step J rt modelId st (l' @ [nl]) = st\<lparr> buffer := buffer st @ l' @ [nl] \<rparr>"
  using no_blank_no_suffix [OF assms, of "buffer st"] by (simp add: read_step_def)

lemma read_loop_keep:
  assumes "\<forall>l \<in> set ls. \<exists>l'. l = l' @ [nl] \<and> nl \<notin> set l' \<and> l' \<noteq> []"
  shows "written (foldl (read_step J rt modelId) st ls) = written st \<and>
         calls (foldl (read_step J rt modelId) st ls) = calls st"
  using assms
proof (induction ls arbitrary: st)
  case Nil
  show ?case by simp
next
  case (Cons l ls)
  from Cons.prems obtain l' where l: "l = l' @ [nl]" "nl \<notin> set l'" "l' \<noteq> []"
    by auto
  have step: "read_step J rt modelId st l = st\<lparr> buffer := buffer st @ l' @ [nl] \<rparr>"
    using read_step_keep [OF l(2) l(3)] l(1) by simp
  from Cons.prems have rest: "\<forall>l \<in> set ls. \<exists>l'. l = l' @ [nl] \<and> nl \<notin> set l' \<and> l' \<noteq> []"
    by simp
  show ?case
    using Cons.IH [OF rest, of "st\<lparr> buffer := buffer st @ l' @ [nl] \<rparr>"] step by simp
qed



lemma emit_line_ids:
  "ids_from_runtime rt st \<Longrightarrow> ids_from_runtime rt (emit_line J rt modelId st l)"
  by (simp add: ids_from_runtime_def emit_line_def new_chunk_def chunks_written_chunk
        split: option.splits)

lemma emit_loop_ids:
  "ids_from_runtime rt st \<Longrightarrow> ids_from_runtime rt (foldl (emit_line J rt modelId) st ls)"
  by (induction ls arbitrary: st) (simp_all add: emit_line_ids)

lemma read_step_ids:
  "ids_from_runtime rt st \<Longrightarrow> ids_from_runtime rt (read_step J rt modelId st line)"
proof -
  assume inv: "ids_from_runtime rt st"
  have a: "ids_from_runtime rt (st\<lparr> buffer := b \<rparr>)" for b
    using inv by (simp add: ids_from_runtime_def)
  show ?thesis
    using a emit_loop_ids [OF a] by (simp add: read_step_def Let_def)
qed

lemma read_loop_ids:
  "ids_from_runtime rt st \<Longrightarrow> ids_from_runtime rt (foldl (read_step J rt modelId) st ls)"
  by (induction ls arbitrary: st) (simp_all add: read_step_ids)

lemma stream_loop_ids: "ids_from_runtime rt (stream_loop J rt modelId body)"
  unfolding stream_loop_def
  by (rule read_loop_ids) (simp add: ids_from_runtime_def chunks_written_Nil)

lemma emit_line_no_done:
  "WriteDone \<notin> set (written st) \<Longrightarrow> WriteDone \<notin> set (written (emit_line J rt modelId st l))"
  by (simp add: emit_line_def split: option.splits)

lemma emit_loop_no_done:
  "WriteDone \<notin> set (written st) \<Longrightarrow>
   WriteDone \<notin> set (written (foldl (emit_line J rt modelId) st ls))"
  by (induction ls arbitrary: st) (simp_all add: emit_line_no_done)

lemma read_step_no_done:
  assumes "WriteDone \<notin> set (written st)"
  shows "WriteDone \<notin> set (written (read_step J rt modelId st line))"
proof -
  have "WriteDone \<notin> set (written (st\<lparr> buffer := b \<rparr>))" for b
    using assms by simp
  from this emit_loop_no_done [OF this] show ?thesis
    by (simp add: read_step_def Let_def)
qed

lemma read_loop_no_done:
  "WriteDone \<notin> set (written st) \<Longrightarrow>
   WriteDone \<notin> set (written (foldl (read_step J rt modelId) st ls))"
  by (induction ls arbitrary: st) (simp_all add: read_step_no_done)

text \<open>For every body the marker is written once, after everything else.\<close>

lemma done_once_and_last:
  "\<exists>ws. handleStreamingResponse J rt modelId body = ws @ [WriteDone] \<and> WriteDone \<notin> set ws"
proof -
  have "WriteDone \<notin> set (written (stream_loop J rt modelId body))"
    unfolding stream_loop_def by (rule read_loop_no_done) simp
  then show ?thesis by (simp add: handleStreamingResponse_def)
qed

subsection \<open>The request\<close>

lemma mapIndex_absent: "\<not> has_key m k \<Longrightarrow> mapIndex m k = JNull"
proof -
  assume "\<not> has_key m k"
  then have "k \<notin> fst ` set m" by (simp add: has_key_def)
  then have "map_of (rev m) k = None" by (simp add: map_of_eq_None_iff)
  then show ?thesis by (simp add: mapIndex_def)
qed

lemma UnmarshalJSON_Temperature:
  assumes "UnmarshalJSON J data = Some body" and "Unmarshal_map J data = Some rawMap"
  shows "Temperature body = or_else (as_float64 (mapIndex rawMap ''temperature'')) 0"
proof -
  from assms obtain m where
    "body = \<lparr> Messages = m,
       Model = or_else (as_string (mapIndex rawMap ''model'')) [],
       Temperature = or_else (as_float64 (mapIndex rawMap ''temperature'')) 0,
       Stream = or_else (as_bool (mapIndex rawMap ''stream'')) False,
       System = or_else (as_string (mapIndex rawMap ''system'')) [],
       MaxTokens =
         or_else (map_option int_of_float64 (as_float64 (mapIndex rawMap ''max_tokens''))) 0,
       TopP = or_else (as_float64 (mapIndex rawMap ''top_p'')) 0,
       FrequencyPenalty = or_else (as_float64 (mapIndex rawMap ''frequency_penalty'')) 0,
       PresencePenalty = or_else (as_float64 (mapIndex rawMap ''presence_penalty'')) 0,
       Extra =
         (case as_string (mapIndex rawMap ''system'') of
            Some v \<Rightarrow> [(''system'', JString v)]
          | None \<Rightarrow> []) @
         (delete_if (as_float64 (mapIndex rawMap ''presence_penalty'') \<noteq> None) ''presence_penalty''
         (delete_if (as_float64 (mapIndex rawMap ''frequency_penalty'') \<noteq> None) ''frequency_penalty''
         (delete_if (as_float64 (mapIndex rawMap ''top_p'') \<noteq> None) ''top_p''
         (delete_if (as_float64 (mapIndex rawMap ''max_tokens'') \<noteq> None) ''max_tokens''
         (delete_if (as_string (mapIndex rawMap ''system'') \<noteq> None) ''system''
         (delete_if (as_bool (mapIndex rawMap ''stream'') \<noteq> None) ''stream''
         (delete_if (as_float64 (mapIndex rawMap ''temperature'') \<noteq> None) ''temperature''
         (delete_if (as_string (mapIndex rawMap ''model'') \<noteq> None) ''model''
         (delete ''messages'' rawMap))))))))) \<rparr>"
    unfolding UnmarshalJSON_def by (auto split: option.splits)
  then show ?thesis by simp
qed

lemma handleChatCompletions_Temperature:
  assumes "handleChatCompletions J env data = Forward req max_tokens stream"
  shows "\<exists>body. UnmarshalJSON J data = Some body \<and>
           Raycast_Temperature req = (if Temperature body = 0 then 0.5 else Temperature body)"
proof (cases "UnmarshalJSON J data")
  case None
  with assms show ?thesis by (simp add: handleChatCompletions_def)
next
  case (Some body)
  with assms have "Raycast_Temperature req = (if Temperature body = 0 then 0.5 else Temperature body)"
    by (auto simp: handleChatCompletions_def Let_def split: if_splits prod.splits)
  with Some show ?thesis by simp
qed

subsection \<open>The handlers on the concrete inputs\<close>



lemma demo_parse: "parseSSEResponse encoding_json demo_body = ''Hello there''"
  by (simp add: demo_body_def strings_eval json_eval handler_eval)

lemma demo_stream:
  "handleStreamingResponse encoding_json demo_runtime ''x'' demo_body =
     [WriteChunk (new_chunk demo_runtime 0 ''x'' \<lparr>Text = ''Hello'', FinishReason = []\<rparr>),
      WriteChunk (new_chunk demo_runtime 1 ''x'' \<lparr>Text = '' there'', FinishReason = ''stop''\<rparr>),
      WriteDone]"
  by (simp add: demo_body_def demo_runtime_def strings_eval json_eval handler_eval)

lemma demo_stream_first:
  \<open>handleStreamingResponse encoding_json demo_runtime ''x'' (''data: {"text":"Hello"}'' @ [nl, nl]) =
     [WriteChunk (new_chunk demo_runtime 0 ''x'' \<lparr>Text = ''Hello'', FinishReason = []\<rparr>),
      WriteDone]\<close>
  by (simp add: demo_runtime_def strings_eval json_eval handler_eval)

lemma demo_raw:
  \<open>Unmarshal_map encoding_json demo_request =
     Some [(''messages'', JArray [JObject [(''role'', JString ''user''), (''content'', JString ''hi'')]]),
           (''model'', JString ''x''), (''temperature'', JNumber 0)]\<close>
  by (simp add: demo_request_def json_eval)

lemma demo_raw_plain:
  \<open>Unmarshal_map encoding_json demo_request_plain =
     Some [(''messages'', JArray [JObject [(''role'', JString ''user''), (''content'', JString ''hi'')]]),
           (''model'', JString ''x''), (''stream'', JBool False)]\<close>
  by (simp add: demo_request_plain_def json_eval)

lemma demo_messages:
  "Unmarshal_messages encoding_json
     (JArray [JObject [(''role'', JString ''user''), (''content'', JString ''hi'')]]) =
     Some [\<lparr>Role = ''user'', Content = JString ''hi''\<rparr>]"
  by (simp add: json_eval hasPrefix_def)

lemmas bind_eval =
  UnmarshalJSON_def demo_messages has_key_def delete_def delete_if_def or_else_def
  as_string_def as_float64_def as_bool_def mapIndex_def

lemma demo_bind:
  "UnmarshalJSON encoding_json demo_request =
     Some \<lparr> Messages = [\<lparr>Role = ''user'', Content = JString ''hi''\<rparr>], Model = ''x'',
            Temperature = 0, Stream = False, System = [], MaxTokens = 0, TopP = 0,
            FrequencyPenalty = 0, PresencePenalty = 0, Extra = [] \<rparr>"
  by (simp add: demo_raw bind_eval)

lemma demo_bind_plain:
  "UnmarshalJSON encoding_json demo_request_plain =
     Some \<lparr> Messages = [\<lparr>Role = ''user'', Content = JString ''hi''\<rparr>], Model = ''x'',
            Temperature = 0, Stream = False, System = [], MaxTokens = 0, TopP = 0,
            FrequencyPenalty = 0, PresencePenalty = 0, Extra = [] \<rparr>"
  by (simp add: demo_raw_plain bind_eval)

lemmas forward_eval =
  handleChatCompletions_def demo_env_def demo_forwarded_def Let_def has_key_def
  convertMessages_def convertMessage_def contentText_of_def

lemma demo_forward:
  "handleChatCompletions encoding_json demo_env demo_request = Forward demo_forwarded None False"
  by (simp add: demo_bind forward_eval)

lemma demo_forward_plain:
  "handleChatCompletions encoding_json demo_env demo_request_plain = Forward demo_forwarded None False"
  by (simp add: demo_bind_plain forward_eval)

section \<open>The claims\<close>

subsection \<open>The Message Adapter\<close>

text \<open>
  Claim C7. For every sequence of turns \<open>convertMessages\<close> returns a sequence of the same
  length, and the turn at each position comes from the turn at that position: its author is
  \<open>assistant\<close> exactly when the role is \<open>assistant\<close> and \<open>user\<close> for every other role, and its
  text is resolved from the content of that turn.
\<close>

theorem convertMessages_length_author:
  "length (convertMessages ms) = length ms \<and>
   (\<forall>i < length ms.
      Author (convertMessages ms ! i) = (if Role (ms ! i) = ''assistant'' then ''assistant'' else ''user'') \<and>
      Content_Text (convertMessages ms ! i) = contentText_of (Content (ms ! i)))"
  by (simp add: convertMessages_def convertMessage_def)

theorem convertMessages_length_author_witness:
  "length (convertMessages demo_turns) = length demo_turns \<and>
   Author (convertMessages demo_turns ! 0) = ''user'' \<and>
   Author (convertMessages demo_turns ! 1) = ''assistant'' \<and>
   Author (convertMessages demo_turns ! 2) = ''user''"
proof -
  have len: "length demo_turns = 3" by (simp add: demo_turns_def)
  from convertMessages_length_author [of demo_turns]
  have same: "length (convertMessages demo_turns) = length demo_turns"
    and at: "\<And>i. i < length demo_turns \<Longrightarrow>
               Author (convertMessages demo_turns ! i) =
                 (if Role (demo_turns ! i) = ''assistant'' then ''assistant'' else ''user'')"
    by auto
  from at [of 0] at [of 1] at [of 2] same len show ?thesis
    by (simp add: demo_turns_def)
qed

text \<open>
  Claim C8. The text of a turn is its content when that is a string; for an array of parts it
  is the texts of the parts whose type is \<open>text\<close>, one after the other in the order of the
  array, the other parts adding nothing; for any other content it is empty. The function is
  total: no content makes it fail.
\<close>

theorem convertMessages_content:
  "map Content_Text (convertMessages ms) = map (\<lambda>m. resolved_content (Content m)) ms"
  by (simp add: convertMessages_def convertMessage_def contentText_of_def resolved_content_def
        foldl_add_part_spec split: json.splits)

theorem convertMessages_content_witness:
  "map Content_Text (convertMessages demo_turns) = [''be brief'', ''Hello'', []]"
  using convertMessages_content [of demo_turns]
  by (simp add: demo_turns_def resolved_content_def part_type_def part_text_def mapIndex_def)

subsection \<open>The Streaming Re-emitter\<close>

text \<open>
  Claim C1, as the code has it. Every chunk carries an identifier of its own: the \<open>k\<close>-th chunk
  written for a request carries \<open>chatcmpl-\<close> followed by the \<open>k\<close>-th UUID drawn while the
  response is handled.
\<close>

theorem chunk_identifiers:
  "map Chunk_ID (chunks_written (handleStreamingResponse J rt modelId body)) =
     map (\<lambda>k. ''chatcmpl-'' @ uuid_New rt k)
       [0..<length (chunks_written (handleStreamingResponse J rt modelId body))]"
proof -
  let ?st = "stream_loop J rt modelId body"
  have ids: "map Chunk_ID (chunks_written (written ?st)) =
               map (\<lambda>k. ''chatcmpl-'' @ uuid_New rt k) [0..<calls ?st]"
    using stream_loop_ids [of rt J modelId body] by (simp add: ids_from_runtime_def)
  then have "length (chunks_written (written ?st)) = calls ?st"
    by (metis length_map length_upt minus_nat.diff_0)
  with ids show ?thesis
    by (simp add: handleStreamingResponse_def chunks_written_done)
qed

text \<open>
  On the body of two events the two chunks carry two different identifiers, so the identifier
  is not one per request.
\<close>

theorem chunk_identifier_not_reused:
  "map Chunk_ID (chunks_written (handleStreamingResponse encoding_json demo_runtime ''x'' demo_body)) =
     [''chatcmpl-00000000-0000-4000-8000-000000000000'',
      ''chatcmpl-11111111-1111-4111-8111-111111111111''] \<and>
   ''chatcmpl-00000000-0000-4000-8000-000000000000'' \<noteq>
     ''chatcmpl-11111111-1111-4111-8111-111111111111''"
  unfolding demo_stream
  by (simp add: chunks_written_def new_chunk_def demo_runtime_def)

theorem chunk_identifiers_witness:
  "map Chunk_ID (chunks_written (handleStreamingResponse encoding_json demo_runtime ''x'' demo_body)) =
     map (\<lambda>k. ''chatcmpl-'' @ uuid_New demo_runtime k) [0..<2]"
proof -
  have "length (chunks_written (handleStreamingResponse encoding_json demo_runtime ''x'' demo_body)) = 2"
    unfolding demo_stream by (simp add: chunks_written_def)
  with chunk_identifiers [of encoding_json demo_runtime "''x''" demo_body] show ?thesis
    by simp
qed




text \<open>
  Claim C9. Lines that are read after the last complete group and are not followed by a blank
  line before the stream ends are never dispatched: they add no chunk to what the body before
  them produces, and the \<open>[DONE]\<close> marker is still written at the end.
\<close>

theorem unterminated_group_dropped:
  assumes "pre = [] \<or> last pre = nl" and "[nl] \<notin> set (readStrings [] g)"
  shows "handleStreamingResponse J rt modelId (pre @ g) = handleStreamingResponse J rt modelId pre \<and>
         last (handleStreamingResponse J rt modelId (pre @ g)) = WriteDone"
proof -
  have lines: "readStrings [] (pre @ g) = readStrings [] pre @ readStrings [] g"
  proof (cases "pre = []")
    case True
    then show ?thesis by simp
  next
    case False
    with assms(1) obtain x where "pre = x @ [nl]"
      by (metis append_butlast_last_id)
    then show ?thesis using readStrings_append [of "[]" x g] by simp
  qed
  have shape: "\<forall>l \<in> set (readStrings [] g). \<exists>l'. l = l' @ [nl] \<and> nl \<notin> set l' \<and> l' \<noteq> []"
  proof
    fix l assume l: "l \<in> set (readStrings [] g)"
    with readStrings_shape [of "[]" l g] obtain l' where l': "l = l' @ [nl]" "nl \<notin> set l'"
      by auto
    from l assms(2) have "l \<noteq> [nl]" by auto
    with l' have "l' \<noteq> []" by auto
    with l' show "\<exists>l'. l = l' @ [nl] \<and> nl \<notin> set l' \<and> l' \<noteq> []" by blast
  qed
  have "written (stream_loop J rt modelId (pre @ g)) = written (stream_loop J rt modelId pre)"
    unfolding stream_loop_def lines foldl_append
    using read_loop_keep [OF shape] by simp
  then show ?thesis by (simp add: handleStreamingResponse_def)
qed

theorem unterminated_group_dropped_witness:
  \<open>[nl] \<notin> set (readStrings [] (''data: {"text":" there"}'' @ [nl])) \<and>
   handleStreamingResponse encoding_json demo_runtime ''x''
     ((''data: {"text":"Hello"}'' @ [nl, nl]) @ (''data: {"text":" there"}'' @ [nl])) =
     [WriteChunk (new_chunk demo_runtime 0 ''x'' \<lparr>Text = ''Hello'', FinishReason = []\<rparr>),
      WriteDone]\<close>
proof -
  have pre: \<open>''data: {"text":"Hello"}'' @ [nl, nl] = [] \<or> last (''data: {"text":"Hello"}'' @ [nl, nl]) = nl\<close>
    by simp
  have g: \<open>[nl] \<notin> set (readStrings [] (''data: {"text":" there"}'' @ [nl]))\<close>
    by (simp add: nl_def)
  from unterminated_group_dropped [OF pre g, of encoding_json demo_runtime "''x''"] g
  show ?thesis by (simp only: demo_stream_first simp_thms)
qed

subsection \<open>The Event Extractor\<close>

text \<open>
  Claim C2, on the code. For a line with the payload \<open>{"content":"hi"}\<close> the decoding into
  \<open>RaycastSSEData\<close> returns no error, since a member that is no field of the struct is
  skipped; the text is empty, the fallback is not entered and the line adds nothing.
\<close>

theorem content_payload_no_fragment:
  \<open>Unmarshal_SSE encoding_json ''{"content":"hi"}'' = Some \<lparr>Text = [], FinishReason = []\<rparr> \<and>
   parse_line encoding_json [] ''data: {"content":"hi"}'' = [] \<and>
   parseSSEResponse encoding_json ''data: {"content":"hi"}'' = []\<close>
  by (simp add: strings_eval json_eval handler_eval)

text \<open>
  For every decoder: a payload that decodes into the struct adds its \<open>Text\<close> and nothing else,
  whatever the object holds besides.
\<close>

lemma strict_parse_decides:
  assumes "Unmarshal_SSE J (trimSpace p) = Some e" and "trimSpace p \<noteq> ''[DONE]''"
  shows "parse_line J fullText (''data:'' @ p) = fullText @ Text e"
proof -
  have pre: "hasPrefix (''data:'' @ p) ''data:''" by (simp add: hasPrefix_def)
  then have "trimPrefix (''data:'' @ p) ''data:'' = p" by (simp add: trimPrefix_def)
  with pre assms show ?thesis by (simp add: parse_line_def)
qed

text \<open>
  The fallback is entered when the decoding into the struct returns an error, as for a \<open>text\<close>
  that is a number; and \<open>extractTextFromJSON\<close> finds the content of the same object.
\<close>

lemma fallback_after_type_error:
  \<open>Unmarshal_SSE encoding_json ''{"text":1,"content":"hi"}'' = None \<and>
   parseSSEResponse encoding_json ''data: {"text":1,"content":"hi"}'' = ''hi''\<close>
  by (simp add: strings_eval json_eval handler_eval)

lemma extractTextFromJSON_content:
  "extractTextFromJSON [(''content'', JString ''hi'')] = ''hi''"
  by (simp add: extractTextFromJSON_def nonempty_string_def as_string_def mapIndex_def)

subsection \<open>The Non-Streaming Aggregator\<close>

text \<open>
  Claim C5. \<open>extractTextFromJSON\<close> looks at the top-level \<open>content\<close>, then the \<open>content\<close> of the
  \<open>message\<close> of the first of \<open>choices\<close>, then the \<open>content\<close> of its \<open>delta\<close>, then the top-level
  \<open>text\<close>, then the top-level \<open>completion\<close>, and returns the first that is a string and not
  empty, the empty string when there is none.
\<close>

theorem extractTextFromJSON_search_order:
  "extractTextFromJSON m = first_nonempty (search_order m)"
  by (simp add: extractTextFromJSON_def search_order_def first_nonempty_Cons first_nonempty_Nil
        choice_content_spec split: option.splits)

theorem extractTextFromJSON_search_order_witness:
  "extractTextFromJSON
     [(''choices'', JArray [JObject [(''message'', JObject [(''content'', JString [])]),
                                    (''delta'', JObject [(''content'', JString ''from delta'')])]]),
      (''text'', JString ''from text'')] = ''from delta''"
  unfolding extractTextFromJSON_search_order
  by (simp add: first_nonempty_def search_order_def first_choice_def member_def mapIndex_def
        nonempty_string_def as_string_def List.map_filter_simps)

text \<open>
  Claim C4. When the lines of the body give no text and the body as one JSON object gives none
  either (it is no object, or the search finds nothing), the reply is a response document, not
  an error, and the content of its message is the fixed notice, which is not empty.
\<close>

theorem nonstreaming_placeholder:
  assumes "parseSSEResponse J body = []"
    and "case Unmarshal_map J body of None \<Rightarrow> True | Some m \<Rightarrow> extractTextFromJSON m = []"
  shows "handleNonStreamingResponse J rt modelId (Inr body) =
           ReplyDocument (new_response rt modelId extraction_failed_notice) \<and>
         map (\<lambda>c. Message_Content (Choice_Message c))
           (Response_Choices (new_response rt modelId extraction_failed_notice)) =
           [extraction_failed_notice] \<and>
         extraction_failed_notice \<noteq> []"
  using assms
  by (simp add: handleNonStreamingResponse_def resolve_fullText_def new_response_def
        extraction_failed_notice_def split: option.splits)

theorem nonstreaming_placeholder_witness:
  "parseSSEResponse encoding_json [] = [] \<and>
   Unmarshal_map encoding_json [] = None \<and>
   handleNonStreamingResponse encoding_json demo_runtime ''x'' (Inr []) =
     ReplyDocument (new_response demo_runtime ''x'' extraction_failed_notice) \<and>
   extraction_failed_notice \<noteq> []"
proof -
  have p: "parseSSEResponse encoding_json [] = []"
    by (simp add: parseSSEResponse_def trimSpace_Nil)
  have m: "Unmarshal_map encoding_json [] = None"
    by (simp add: json_eval)
  then have f: "case Unmarshal_map encoding_json [] of None \<Rightarrow> True
                | Some m \<Rightarrow> extractTextFromJSON m = []"
    by simp
  from nonstreaming_placeholder [OF p f, of demo_runtime "''x''"] p m show ?thesis
    by blast
qed

text \<open>
  Claim C6. Every response document that \<open>handleNonStreamingResponse\<close> produces has one choice,
  and its \<open>finish_reason\<close> is \<open>length\<close>, whatever the events of the body said.
\<close>

theorem nonstreaming_finish_reason:
  assumes "handleNonStreamingResponse J rt modelId readAll = ReplyDocument d"
  shows "map Choice_FinishReason (Response_Choices d) = [''length'']"
  using assms
  by (auto simp: handleNonStreamingResponse_def new_response_def split: sum.splits)

theorem nonstreaming_finish_reason_witness:
  "handleNonStreamingResponse encoding_json demo_runtime ''x'' (Inr demo_body) =
     ReplyDocument (new_response demo_runtime ''x'' ''Hello there'') \<and>
   map Choice_FinishReason (Response_Choices (new_response demo_runtime ''x'' ''Hello there'')) =
     [''length'']"
proof -
  have doc: "handleNonStreamingResponse encoding_json demo_runtime ''x'' (Inr demo_body) =
               ReplyDocument (new_response demo_runtime ''x'' ''Hello there'')"
    by (simp add: handleNonStreamingResponse_def resolve_fullText_def demo_parse)
  from nonstreaming_finish_reason [OF doc] doc show ?thesis by blast
qed

subsection \<open>The request sent to the backend\<close>

text \<open>
  Claim C10. A request that is forwarded never carries the temperature 0; when the request
  has no \<open>temperature\<close> member, or has the number 0 there, the temperature forwarded is 0.5.
\<close>

theorem default_temperature:
  assumes "handleChatCompletions J env data = Forward req max_tokens stream"
  shows "Raycast_Temperature req \<noteq> 0 \<and>
         (\<forall>rawMap. Unmarshal_map J data = Some rawMap \<longrightarrow>
            \<not> has_key rawMap ''temperature'' \<or> mapIndex rawMap ''temperature'' = JNumber 0 \<longrightarrow>
            Raycast_Temperature req = 0.5)"
proof -
  from handleChatCompletions_Temperature [OF assms] obtain body where
    body: "UnmarshalJSON J data = Some body" and
    temp: "Raycast_Temperature req = (if Temperature body = 0 then 0.5 else Temperature body)"
    by blast
  have nonzero: "Raycast_Temperature req \<noteq> 0" using temp by (simp split: if_splits)
  have dflt: "Raycast_Temperature req = 0.5"
    if raw: "Unmarshal_map J data = Some rawMap"
      and t: "\<not> has_key rawMap ''temperature'' \<or> mapIndex rawMap ''temperature'' = JNumber 0"
    for rawMap
  proof -
    from t have "or_else (as_float64 (mapIndex rawMap ''temperature'')) 0 = 0"
      by (auto simp: mapIndex_absent or_else_def as_float64_def)
    with UnmarshalJSON_Temperature [OF body raw] have "Temperature body = 0" by simp
    with temp show ?thesis by simp
  qed
  from nonzero dflt show ?thesis by blast
qed

theorem default_temperature_witness:
  "handleChatCompletions encoding_json demo_env demo_request = Forward demo_forwarded None False \<and>
   handleChatCompletions encoding_json demo_env demo_request_plain = Forward demo_forwarded None False \<and>
   Raycast_Temperature demo_forwarded \<noteq> 0 \<and>
   Raycast_Temperature demo_forwarded = 0.5"
proof -
  have zero: "mapIndex [(''messages'', JArray [JObject [(''role'', JString ''user''), (''content'', JString ''hi'')]]),
                        (''model'', JString ''x''), (''temperature'', JNumber 0)] ''temperature'' = JNumber 0"
    by (simp add: mapIndex_def)
  have absent: "\<not> has_key [(''messages'', JArray [JObject [(''role'', JString ''user''), (''content'', JString ''hi'')]]),
                            (''model'', JString ''x''), (''stream'', JBool False)] ''temperature''"
    by (simp add: has_key_def)
  from default_temperature [OF demo_forward] demo_raw zero
  have a: "Raycast_Temperature demo_forwarded \<noteq> 0" and b: "Raycast_Temperature demo_forwarded = 0.5"
    by blast+
  from default_temperature [OF demo_forward_plain] demo_raw_plain absent
  have c: "Raycast_Temperature demo_forwarded = 0.5"
    by blast
  from a b c demo_forward demo_forward_plain show ?thesis by blast
qed

end
